theory Spec2Isabelle
  imports Main
begin

section \<open>The enumerations of src/types/index.ts\<close>

text \<open>
  The two string enums. A TypeScript string enum member is, at run time, the string it
  is initialised with; \<open>subAction_value\<close> and \<open>action_value\<close> give that string.
  Both enums have members called ERROR and MESSAGE, so the constructors carry the name
  of their enum as a prefix.
\<close>

datatype TransportSubAction =
    SubAction_ACTION | SubAction_CODE | SubAction_CREATE | SubAction_DELETE
  | SubAction_DESTROY | SubAction_END | SubAction_ERROR | SubAction_GET
  | SubAction_INVITE | SubAction_JOIN | SubAction_LEAVE | SubAction_LOGIN
  | SubAction_LOGOUT | SubAction_MESSAGE | SubAction_SEND | SubAction_SIGNUP
  | SubAction_START | SubAction_STORE | SubAction_TURN

fun subAction_value :: "TransportSubAction \<Rightarrow> string" where
  "subAction_value SubAction_ACTION = ''ACTION''"
| "subAction_value SubAction_CODE = ''CODE''"
| "subAction_value SubAction_CREATE = ''CREATE''"
| "subAction_value SubAction_DELETE = ''DELETE''"
| "subAction_value SubAction_DESTROY = ''DESTROY''"
| "subAction_value SubAction_END = ''END''"
| "subAction_value SubAction_ERROR = ''ERROR''"
| "subAction_value SubAction_GET = ''GET''"
| "subAction_value SubAction_INVITE = ''INVITE''"
| "subAction_value SubAction_JOIN = ''JOIN''"
| "subAction_value SubAction_LEAVE = ''LEAVE''"
| "subAction_value SubAction_LOGIN = ''LOGIN''"
| "subAction_value SubAction_LOGOUT = ''LOGOUT''"
| "subAction_value SubAction_MESSAGE = ''MESSAGE''"
| "subAction_value SubAction_SEND = ''SEND''"
| "subAction_value SubAction_SIGNUP = ''SIGNUP''"
| "subAction_value SubAction_START = ''START''"
| "subAction_value SubAction_STORE = ''STORE''"
| "subAction_value SubAction_TURN = ''TURN''"

datatype TransportAction =
    Action_AUTH | Action_ERROR | Action_GROUP | Action_GROUPS | Action_MESSAGE
  | Action_NOTIFICATION | Action_ROOM | Action_UNKNOWN | Action_USER | Action_ZONE

fun action_value :: "TransportAction \<Rightarrow> string" where
  "action_value Action_AUTH = ''AUTH''"
| "action_value Action_ERROR = ''ERROR''"
| "action_value Action_GROUP = ''GROUP''"
| "action_value Action_GROUPS = ''GROUPS''"
| "action_value Action_MESSAGE = ''MESSAGE''"
| "action_value Action_NOTIFICATION = ''NOTIFICATION''"
| "action_value Action_ROOM = ''ROOM''"
| "action_value Action_UNKNOWN = ''UNKNOWN''"
| "action_value Action_USER = ''USER''"
| "action_value Action_ZONE = ''ZONE''"

section \<open>Errors\<close>

text \<open>
  Every \<open>throw\<close> of the package, and the TypeError that JavaScript raises when a method
  is called on \<open>undefined\<close>. \<open>error_message\<close> is the message the source builds.
\<close>

datatype error =
    TypeError
  | InvalidAction string
  | NotLoggedIn
  | InvalidAuthToken
  | NoJwtSecret
  | InvalidToken

fun error_message :: "error \<Rightarrow> string" where
  "error_message TypeError = ''TypeError''"
| "error_message (InvalidAction methodName) = ''Invalid Action '' @ methodName"
| "error_message NotLoggedIn = ''Not Logged in''"
| "error_message InvalidAuthToken = ''Invalid auth token''"
| "error_message NoJwtSecret = ''No JWT secret found. Please set JWT_SECRET in .env file.''"
| "error_message InvalidToken = ''Invalid Token. Please log in again.''"

section \<open>String utilities (util.ts/string.util)\<close>

text \<open>
  \<open>String.prototype.toLowerCase\<close> and \<open>toUpperCase\<close>, on the letters A to Z and a to z;
  every other character is left as it is. The enum values consist of the letters A to Z.
\<close>

definition toLowerCase_char :: "char \<Rightarrow> char" where
  "toLowerCase_char c =
     (case map_of (zip ''ABCDEFGHIJKLMNOPQRSTUVWXYZ'' ''abcdefghijklmnopqrstuvwxyz'') c of
        None \<Rightarrow> c
      | Some l \<Rightarrow> l)"

definition toUpperCase_char :: "char \<Rightarrow> char" where
  "toUpperCase_char c =
     (case map_of (zip ''abcdefghijklmnopqrstuvwxyz'' ''ABCDEFGHIJKLMNOPQRSTUVWXYZ'') c of
        None \<Rightarrow> c
      | Some u \<Rightarrow> u)"

definition toLowerCase :: "string \<Rightarrow> string" where
  "toLowerCase s = map toLowerCase_char s"

definition toUpperCase :: "string \<Rightarrow> string" where
  "toUpperCase s = map toUpperCase_char s"

text \<open>
  The callback of \<open>camelCase\<close>'s \<open>map\<close>:
  \<^verbatim>\<open>(idx === 0 ? word[0].toLowerCase() : word[0].toUpperCase()) + word.toLowerCase().slice(1)\<close>.
  For the empty word \<open>word[0]\<close> is \<open>undefined\<close> and the method call raises a TypeError.
\<close>

fun camelCase_word :: "nat \<Rightarrow> string \<Rightarrow> error + string" where
  "camelCase_word idx [] = Inl TypeError"
| "camelCase_word idx (c # cs) =
     Inr ((if idx = 0 then toLowerCase [c] else toUpperCase [c]) @ drop 1 (toLowerCase (c # cs)))"

text \<open>\<open>input.map(callback)\<close> from index \<open>idx\<close> on; the first word that raises ends the call.\<close>

fun camelCase_map :: "nat \<Rightarrow> string list \<Rightarrow> error + string list" where
  "camelCase_map idx [] = Inr []"
| "camelCase_map idx (word # input) =
     (case camelCase_word idx word of
        Inl e \<Rightarrow> Inl e
      | Inr w \<Rightarrow>
          (case camelCase_map (Suc idx) input of
             Inl e \<Rightarrow> Inl e
           | Inr ws \<Rightarrow> Inr (w # ws)))"

definition camelCase :: "string list \<Rightarrow> error + string" where
  "camelCase input =
     (case camelCase_map 0 input of
        Inl e \<Rightarrow> Inl e
      | Inr ws \<Rightarrow> Inr (concat ws))"

text \<open>
  \<open>createMethodName\<close> works on the run-time strings. \<open>if (subAction)\<close> is false for
  \<open>undefined\<close> and for the empty string.
\<close>

definition createMethodName :: "string \<Rightarrow> string option \<Rightarrow> error + string" where
  "createMethodName action subAction =
     (let arr = [''handle'', action];
          arr = (case subAction of
                   None \<Rightarrow> arr
                 | Some s \<Rightarrow> if s = [] then arr else arr @ [s])
      in camelCase arr)"

section \<open>Envelope and registry (src/types/index.ts)\<close>

text \<open>
  \<open>Transport\<close>: an optional field is an \<open>option\<close>, \<open>None\<close> for \<open>undefined\<close>. The payload
  is a JSON object the dispatcher never looks into; so is the error field.
\<close>

record 'p Transport =
  auth :: "string option"
  action :: TransportAction
  subAction :: "TransportSubAction option"
  message :: "string option"
  payload :: "'p option"
  error :: "string option"

text \<open>\<open>ValidTokenInterface\<close>: the claims of a verified token; only \<open>user\<close> is read.\<close>

record 'u ValidTokenInterface =
  user :: "'u option"

text \<open>
  An entry of \<open>MessageHandlerConfig\<close>. The interface declares \<open>noAuth: boolean\<close>, and
  the sample configurations of the package leave it out, so the flag is \<open>None\<close> (unset),
  \<open>Some True\<close> or \<open>Some False\<close>. \<open>'r\<close> is what the action method returns (a promise
  of a \<open>Transport\<close>).
\<close>

record ('ws, 'p, 'u, 'r) ActionObj =
  noAuth :: "bool option"
  actionMethod :: "'ws \<Rightarrow> 'p option \<Rightarrow> 'u option \<Rightarrow> 'r"

type_synonym ('ws, 'p, 'u, 'r) MessageHandlerConfig = "string \<rightharpoonup> ('ws, 'p, 'u, 'r) ActionObj"

text \<open>
  What a dispatch does besides returning: the calls it makes, in order. A call of
  \<open>jwt.verify\<close> carries the token and the secret, a call of an action method the key of
  its entry and the three arguments.
\<close>

datatype ('ws, 'p, 'u) call =
    Call_validateToken string
  | Call_jwt_verify string string
  | Call_actionMethod string 'ws "'p option" "'u option"

section \<open>Token validation (util.ts/authentication.util)\<close>

text \<open>A run-time argument of \<open>validateToken\<close>: a string, or a value of another type.\<close>

datatype js_value = JS_string string | JS_other

text \<open>
  \<open>String.prototype.split\<close> with a one-character separator: the segments between the
  separators, at least one, the empty string giving one empty segment.
\<close>

fun split :: "char \<Rightarrow> string \<Rightarrow> string list" where
  "split sep [] = [[]]"
| "split sep (c # cs) =
     (if c = sep then [] # split sep cs
      else (case split sep cs of
              [] \<Rightarrow> [[c]]
            | w # ws \<Rightarrow> (c # w) # ws))"

text \<open>
  \<^verbatim>\<open>bearer.split(" ")[1] || bearer\<close>: the second segment when there is one and it is not
  empty, the whole string otherwise.
\<close>

definition bearer_token :: "string \<Rightarrow> string" where
  "bearer_token bearer =
     (case split (CHR '' '') bearer of
        _ # t # _ \<Rightarrow> if t = [] then bearer else t
      | _ \<Rightarrow> bearer)"

text \<open>
  \<open>validateToken\<close>. \<open>JWT_SECRET\<close> is \<open>process.env.JWT_SECRET\<close>; \<open>jwt_verify token secret\<close>
  is \<open>jwt.verify\<close> of the jsonwebtoken library, \<open>None\<close> when it throws. The result comes
  with the calls of \<open>jwt.verify\<close> made, as pairs of token and secret.
\<close>

definition validateToken ::
  "string option \<Rightarrow> (string \<Rightarrow> string \<Rightarrow> 'u ValidTokenInterface option) \<Rightarrow> js_value \<Rightarrow>
     (string \<times> string) list \<times> (error + 'u ValidTokenInterface)" where
  "validateToken JWT_SECRET jwt_verify bearer =
     (case bearer of
        JS_other \<Rightarrow> ([], Inl InvalidAuthToken)
      | JS_string b \<Rightarrow>
          (let token = bearer_token b in
           case JWT_SECRET of
             None \<Rightarrow> ([], Inl NoJwtSecret)
           | Some secret \<Rightarrow>
               if secret = [] then ([], Inl NoJwtSecret)
               else (case jwt_verify token secret of
                       None \<Rightarrow> ([(token, secret)], Inl InvalidToken)
                     | Some claims \<Rightarrow> ([(token, secret)], Inr claims))))"

section \<open>The dispatcher (message-handler/index.ts)\<close>

text \<open>
  \<open>handleMessage\<close>, the function \<open>createMesssageHandler config\<close> returns. A rejected
  promise is \<open>Inl\<close> of the error thrown. \<open>!auth\<close> holds for \<open>undefined\<close> and for the empty
  string.
\<close>

definition handleMessage ::
  "string option \<Rightarrow> (string \<Rightarrow> string \<Rightarrow> 'u ValidTokenInterface option) \<Rightarrow>
     ('ws, 'p, 'u, 'r) MessageHandlerConfig \<Rightarrow> 'ws \<Rightarrow> 'p Transport \<Rightarrow>
     ('ws, 'p, 'u) call list \<times> (error + 'r)" where
  "handleMessage JWT_SECRET jwt_verify config ws msg =
     (case createMethodName (action_value (action msg))
             (map_option subAction_value (subAction msg)) of
        Inl e \<Rightarrow> ([], Inl e)
      | Inr methodName \<Rightarrow>
          (case config methodName of
             None \<Rightarrow> ([], Inl (InvalidAction methodName))
           | Some actionObj \<Rightarrow>
               if action msg \<noteq> Action_AUTH \<and> noAuth actionObj = Some False then
                 (case auth msg of
                    None \<Rightarrow> ([], Inl NotLoggedIn)
                  | Some a \<Rightarrow>
                      if a = [] then ([], Inl NotLoggedIn)
                      else (case validateToken JWT_SECRET jwt_verify (JS_string a) of
                              (calls, Inl e) \<Rightarrow>
                                (Call_validateToken a # map (\<lambda>(t, s). Call_jwt_verify t s) calls,
                                 Inl e)
                            | (calls, Inr res) \<Rightarrow>
                                (Call_validateToken a # map (\<lambda>(t, s). Call_jwt_verify t s) calls @
                                   [Call_actionMethod methodName ws (payload msg) (user res)],
                                 Inr (actionMethod actionObj ws (payload msg) (user res)))))
               else ([Call_actionMethod methodName ws (payload msg) None],
                     Inr (actionMethod actionObj ws (payload msg) None))))"

definition createMesssageHandler ::
  "string option \<Rightarrow> (string \<Rightarrow> string \<Rightarrow> 'u ValidTokenInterface option) \<Rightarrow>
     ('ws, 'p, 'u, 'r) MessageHandlerConfig \<Rightarrow> 'ws \<Rightarrow> 'p Transport \<Rightarrow>
     ('ws, 'p, 'u) call list \<times> (error + 'r)" where
  "createMesssageHandler JWT_SECRET jwt_verify config = handleMessage JWT_SECRET jwt_verify config"

section \<open>Notions used in the statements and proofs\<close>

text \<open>
  The words of the specification: a word with its first letter upper-cased and the
  remaining letters lower-cased.
\<close>

definition PascalCase :: "string \<Rightarrow> string" where
  "PascalCase w = (case w of [] \<Rightarrow> [] | c # cs \<Rightarrow> toUpperCase_char c # map toLowerCase_char cs)"

text \<open>What a sub-action adds to the key.\<close>

definition key_suffix :: "TransportSubAction option \<Rightarrow> string" where
  "key_suffix sub = (case sub of None \<Rightarrow> [] | Some s \<Rightarrow> PascalCase (subAction_value s))"

text \<open>
  Reading a key back: a capital letter starts a word, the first word of a string runs
  to the next capital letter, and the enum member of a value is looked up in a table.
\<close>

definition is_capital :: "char \<Rightarrow> bool" where
  "is_capital c = (c \<in> set ''ABCDEFGHIJKLMNOPQRSTUVWXYZ'')"

definition word_boundary :: "string \<Rightarrow> bool" where
  "word_boundary r = (case r of [] \<Rightarrow> True | c # _ \<Rightarrow> is_capital c)"

definition first_word :: "string \<Rightarrow> string" where
  "first_word k = (case k of [] \<Rightarrow> [] | c # cs \<Rightarrow> c # takeWhile (\<lambda>d. \<not> is_capital d) cs)"

definition action_of_value :: "string \<Rightarrow> TransportAction option" where
  "action_of_value = map_of (map (\<lambda>a. (action_value a, a))
     [Action_AUTH, Action_ERROR, Action_GROUP, Action_GROUPS, Action_MESSAGE,
      Action_NOTIFICATION, Action_ROOM, Action_UNKNOWN, Action_USER, Action_ZONE])"

definition subAction_of_value :: "string \<Rightarrow> TransportSubAction option" where
  "subAction_of_value = map_of (map (\<lambda>s. (subAction_value s, s))
     [SubAction_ACTION, SubAction_CODE, SubAction_CREATE, SubAction_DELETE,
      SubAction_DESTROY, SubAction_END, SubAction_ERROR, SubAction_GET,
      SubAction_INVITE, SubAction_JOIN, SubAction_LEAVE, SubAction_LOGIN,
      SubAction_LOGOUT, SubAction_MESSAGE, SubAction_SEND, SubAction_SIGNUP,
      SubAction_START, SubAction_STORE, SubAction_TURN])"

text \<open>
  A registry and a verifier for the concrete instances: connections are numbers,
  payloads and users are strings, an action method answers with the name of the user
  it was given. One entry leaves the flag unset, as the sample of the README does.
\<close>

definition sample_method :: "nat \<Rightarrow> string option \<Rightarrow> string option \<Rightarrow> string" where
  "sample_method ws pl usr = (case usr of None \<Rightarrow> ''anonymous'' | Some u \<Rightarrow> u)"

definition sample_config :: "(nat, string, string, string) MessageHandlerConfig" where
  "sample_config =
     [''handleZoneJoin'' \<mapsto> \<lparr>noAuth = None, actionMethod = sample_method\<rparr>,
      ''handleMessageSend'' \<mapsto> \<lparr>noAuth = Some False, actionMethod = sample_method\<rparr>,
      ''handleGroupGet'' \<mapsto> \<lparr>noAuth = Some True, actionMethod = sample_method\<rparr>,
      ''handleAuthLogin'' \<mapsto> \<lparr>noAuth = Some False, actionMethod = sample_method\<rparr>]"

definition sample_verify :: "string \<Rightarrow> string \<Rightarrow> string ValidTokenInterface option" where
  "sample_verify token secret =
     (if token = ''tok'' \<and> secret = ''s3cret'' then Some \<lparr>user = Some ''alice''\<rparr> else None)"

definition sample_message ::
  "string option \<Rightarrow> TransportAction \<Rightarrow> TransportSubAction option \<Rightarrow> string Transport" where
  "sample_message a act sub =
     \<lparr>auth = a, action = act, subAction = sub, message = None, payload = Some ''{}'',
      error = None\<rparr>"

section \<open>The action key\<close>

lemma camelCase_word_first: "camelCase_word 0 ''handle'' = Inr ''handle''"
  by (simp add: toLowerCase_def toLowerCase_char_def)

lemma camelCase_word_later:
  "w \<noteq> [] \<Longrightarrow> camelCase_word (Suc n) w = Inr (PascalCase w)"
  by (cases w) (simp_all add: PascalCase_def toLowerCase_def toUpperCase_def)

lemma createMethodName_strings:
  assumes "a \<noteq> []"
  shows "createMethodName a None = Inr (''handle'' @ PascalCase a)"
    and "s \<noteq> [] \<Longrightarrow> createMethodName a (Some s) = Inr (''handle'' @ PascalCase a @ PascalCase s)"
  using assms
  by (simp_all add: createMethodName_def camelCase_def camelCase_word_first
      camelCase_word_later del: camelCase_word.simps)

lemma action_value_nonempty: "action_value a \<noteq> []"
  by (cases a) simp_all

lemma subAction_value_nonempty: "subAction_value s \<noteq> []"
  by (cases s) simp_all

lemma createMethodName_enum:
  "createMethodName (action_value a) (map_option subAction_value sub) =
     Inr (''handle'' @ PascalCase (action_value a) @
          (case sub of None \<Rightarrow> [] | Some s \<Rightarrow> PascalCase (subAction_value s)))"
  by (cases sub)
    (simp_all add: createMethodName_strings action_value_nonempty subAction_value_nonempty)

text \<open>
  C3. For every action of TransportAction and every optional sub-action of
  TransportSubAction the key is the string handle, followed by the action with its
  first letter upper-cased and the other letters lower-cased, followed, when a
  sub-action is present, by the sub-action capitalised the same way; (MESSAGE, SEND)
  gives handleMessageSend, (AUTH, none) gives handleAuth and (ZONE, JOIN) gives
  handleZoneJoin.
\<close>

theorem createMethodName_pattern:
  "createMethodName (action_value a) (map_option subAction_value sub) =
     Inr (''handle'' @ PascalCase (action_value a) @
          (case sub of None \<Rightarrow> [] | Some s \<Rightarrow> PascalCase (subAction_value s)))
   \<and> createMethodName (action_value Action_MESSAGE) (Some (subAction_value SubAction_SEND)) =
       Inr ''handleMessageSend''
   \<and> createMethodName (action_value Action_AUTH) None = Inr ''handleAuth''
   \<and> createMethodName (action_value Action_ZONE) (Some (subAction_value SubAction_JOIN)) =
       Inr ''handleZoneJoin''"
proof -
  have general: "createMethodName (action_value a) (map_option subAction_value sub) =
     Inr (''handle'' @ PascalCase (action_value a) @
          (case sub of None \<Rightarrow> [] | Some s \<Rightarrow> PascalCase (subAction_value s)))"
    by (rule createMethodName_enum)
  have ex1: "createMethodName (action_value Action_MESSAGE) (Some (subAction_value SubAction_SEND)) =
       Inr ''handleMessageSend''"
    by (simp add: createMethodName_strings PascalCase_def toLowerCase_char_def toUpperCase_char_def)
  have ex2: "createMethodName (action_value Action_AUTH) None = Inr ''handleAuth''"
    by (simp add: createMethodName_strings PascalCase_def toLowerCase_char_def toUpperCase_char_def)
  have ex3: "createMethodName (action_value Action_ZONE) (Some (subAction_value SubAction_JOIN)) =
       Inr ''handleZoneJoin''"
    by (simp add: createMethodName_strings PascalCase_def toLowerCase_char_def toUpperCase_char_def)
  from general ex1 ex2 ex3 show ?thesis by blast
qed

lemma takeWhile_boundary: "word_boundary x \<Longrightarrow> takeWhile (\<lambda>d. \<not> is_capital d) x = []"
  by (cases x) (simp_all add: word_boundary_def)

lemma toUpperCase_PascalCase_action:
  "toUpperCase (PascalCase (action_value a)) = action_value a"
  by (cases a)
    (simp_all add: toUpperCase_def PascalCase_def toLowerCase_char_def toUpperCase_char_def)

lemma toUpperCase_PascalCase_subAction:
  "toUpperCase (PascalCase (subAction_value s)) = subAction_value s"
  by (cases s)
    (simp_all add: toUpperCase_def PascalCase_def toLowerCase_char_def toUpperCase_char_def)

lemma action_of_value_inverse: "action_of_value (action_value a) = Some a"
  by (cases a) (simp_all add: action_of_value_def)

lemma subAction_of_value_inverse: "subAction_of_value (subAction_value s) = Some s"
  by (cases s) (simp_all add: subAction_of_value_def)

lemma lower_not_capital: "\<not> is_capital (toLowerCase_char c)"
  by (cases "is_capital c") (auto simp: is_capital_def toLowerCase_char_def)

lemma first_word_PascalCase:
  assumes "w \<noteq> []" and "word_boundary x"
  shows "first_word (PascalCase w @ x) = PascalCase w"
proof -
  from assms(1) obtain c cs where w: "w = c # cs"
    by (cases w) auto
  have "\<And>d. d \<in> set (map toLowerCase_char cs) \<Longrightarrow> \<not> is_capital d"
    using lower_not_capital by auto
  then have "takeWhile (\<lambda>d. \<not> is_capital d) (map toLowerCase_char cs @ x) =
      map toLowerCase_char cs @ takeWhile (\<lambda>d. \<not> is_capital d) x"
    by (rule takeWhile_append2)
  then show ?thesis
    by (simp add: w PascalCase_def first_word_def takeWhile_boundary [OF assms(2)])
qed

lemma PascalCase_subAction_boundary: "word_boundary (PascalCase (subAction_value s))"
  by (cases s)
    (simp_all add: PascalCase_def toUpperCase_char_def word_boundary_def is_capital_def)

lemma PascalCase_action_inj:
  assumes "PascalCase (action_value a) = PascalCase (action_value b)"
  shows "a = b"
proof -
  from assms have "action_value a = action_value b"
    by (metis toUpperCase_PascalCase_action)
  then have "action_of_value (action_value a) = action_of_value (action_value b)"
    by simp
  then show ?thesis
    by (simp add: action_of_value_inverse)
qed

lemma PascalCase_subAction_inj:
  assumes "PascalCase (subAction_value s) = PascalCase (subAction_value t)"
  shows "s = t"
proof -
  from assms have "subAction_value s = subAction_value t"
    by (metis toUpperCase_PascalCase_subAction)
  then have "subAction_of_value (subAction_value s) = subAction_of_value (subAction_value t)"
    by simp
  then show ?thesis
    by (simp add: subAction_of_value_inverse)
qed

lemma PascalCase_nonempty: "w \<noteq> [] \<Longrightarrow> PascalCase w \<noteq> []"
  by (cases w) (simp_all add: PascalCase_def)

lemma key_suffix_boundary: "word_boundary (key_suffix sub)"
proof (cases sub)
  case None
  then show ?thesis by (simp add: key_suffix_def word_boundary_def)
next
  case (Some s)
  then show ?thesis by (simp add: key_suffix_def PascalCase_subAction_boundary)
qed

lemma key_suffix_Some_nonempty: "key_suffix (Some x) \<noteq> []"
  by (simp add: key_suffix_def PascalCase_nonempty subAction_value_nonempty)

lemma key_suffix_inj:
  assumes "key_suffix s = key_suffix t"
  shows "s = t"
proof (cases s)
  case None
  show ?thesis
  proof (cases t)
    case None
    with \<open>s = None\<close> show ?thesis by simp
  next
    case (Some y)
    with assms \<open>s = None\<close> have "key_suffix (Some y) = []"
      by (simp add: key_suffix_def)
    then show ?thesis
      by (simp add: key_suffix_Some_nonempty)
  qed
next
  case (Some x)
  show ?thesis
  proof (cases t)
    case None
    with assms \<open>s = Some x\<close> have "key_suffix (Some x) = []"
      by (simp add: key_suffix_def)
    then show ?thesis
      by (simp add: key_suffix_Some_nonempty)
  next
    case (Some y)
    with assms \<open>s = Some x\<close>
    have "PascalCase (subAction_value x) = PascalCase (subAction_value y)"
      by (simp add: key_suffix_def)
    then have "x = y"
      by (rule PascalCase_subAction_inj)
    with Some \<open>s = Some x\<close> show ?thesis by simp
  qed
qed

text \<open>
  C4. The key is a function of the pair, and over the two enumerations it is injective:
  when the keys computed for two pairs of an action and an optional sub-action are
  equal, the pairs are equal.
\<close>

theorem createMethodName_injective:
  assumes "createMethodName (action_value a) (map_option subAction_value s) =
           createMethodName (action_value a') (map_option subAction_value s')"
  shows "a = a' \<and> s = s'"
proof -
  from assms have eq:
    "PascalCase (action_value a) @ key_suffix s = PascalCase (action_value a') @ key_suffix s'"
    by (simp add: createMethodName_enum key_suffix_def)
  then have "first_word (PascalCase (action_value a) @ key_suffix s) =
      first_word (PascalCase (action_value a') @ key_suffix s')"
    by simp
  then have pa: "PascalCase (action_value a) = PascalCase (action_value a')"
    by (simp add: first_word_PascalCase action_value_nonempty key_suffix_boundary)
  then have a: "a = a'"
    by (rule PascalCase_action_inj)
  from eq pa have "key_suffix s = key_suffix s'"
    by simp
  then have "s = s'"
    by (rule key_suffix_inj)
  with a show ?thesis by simp
qed

theorem createMethodName_injective_witness:
  "createMethodName (action_value Action_GROUP) (map_option subAction_value (Some SubAction_SEND)) =
     createMethodName (action_value Action_GROUP) (map_option subAction_value (Some SubAction_SEND))
   \<and> createMethodName (action_value Action_GROUP) (map_option subAction_value (Some SubAction_SEND)) =
       Inr ''handleGroupSend''
   \<and> createMethodName (action_value Action_GROUPS) (map_option subAction_value (Some SubAction_END)) =
       Inr ''handleGroupsEnd''
   \<and> (Action_GROUP = Action_GROUP \<and> Some SubAction_SEND = Some SubAction_SEND)"
  using createMethodName_injective [of Action_GROUP "Some SubAction_SEND" Action_GROUP "Some SubAction_SEND"]
  by (simp add: createMethodName_strings PascalCase_def toLowerCase_char_def toUpperCase_char_def)

section \<open>The dispatcher\<close>

lemmas key_eval =
  createMethodName_strings PascalCase_def toLowerCase_char_def toUpperCase_char_def

lemma handleMessage_unmatched:
  assumes "createMethodName (action_value (action msg))
             (map_option subAction_value (subAction msg)) = Inr k"
    and "config k = None"
  shows "handleMessage JWT_SECRET jwt_verify config ws msg = ([], Inl (InvalidAction k))"
  using assms by (simp add: handleMessage_def)

lemma handleMessage_ungated:
  assumes "createMethodName (action_value (action msg))
             (map_option subAction_value (subAction msg)) = Inr k"
    and "config k = Some entry"
    and "action msg = Action_AUTH \<or> noAuth entry \<noteq> Some False"
  shows "handleMessage JWT_SECRET jwt_verify config ws msg =
           ([Call_actionMethod k ws (payload msg) None],
            Inr (actionMethod entry ws (payload msg) None))"
  using assms by (auto simp: handleMessage_def)

lemma handleMessage_gated_no_auth:
  assumes "createMethodName (action_value (action msg))
             (map_option subAction_value (subAction msg)) = Inr k"
    and "config k = Some entry"
    and "action msg \<noteq> Action_AUTH" and "noAuth entry = Some False"
    and "auth msg = None \<or> auth msg = Some []"
  shows "handleMessage JWT_SECRET jwt_verify config ws msg = ([], Inl NotLoggedIn)"
  using assms by (auto simp: handleMessage_def)

lemma handleMessage_gated_auth:
  assumes "createMethodName (action_value (action msg))
             (map_option subAction_value (subAction msg)) = Inr k"
    and "config k = Some entry"
    and "action msg \<noteq> Action_AUTH" and "noAuth entry = Some False"
    and "auth msg = Some a" and "a \<noteq> []"
  shows "handleMessage JWT_SECRET jwt_verify config ws msg =
           (case validateToken JWT_SECRET jwt_verify (JS_string a) of
              (calls, Inl e) \<Rightarrow>
                (Call_validateToken a # map (\<lambda>(t, s). Call_jwt_verify t s) calls, Inl e)
            | (calls, Inr res) \<Rightarrow>
                (Call_validateToken a # map (\<lambda>(t, s). Call_jwt_verify t s) calls @
                   [Call_actionMethod k ws (payload msg) (user res)],
                 Inr (actionMethod entry ws (payload msg) (user res))))"
  using assms by (simp add: handleMessage_def)

lemma sample_keys:
  "createMethodName (action_value Action_USER) (map_option subAction_value None) = Inr ''handleUser''"
  "createMethodName (action_value Action_GROUP) (map_option subAction_value (Some SubAction_GET)) =
     Inr ''handleGroupGet''"
  "createMethodName (action_value Action_ZONE) (map_option subAction_value (Some SubAction_JOIN)) =
     Inr ''handleZoneJoin''"
  "createMethodName (action_value Action_MESSAGE) (map_option subAction_value (Some SubAction_SEND)) =
     Inr ''handleMessageSend''"
  "createMethodName (action_value Action_AUTH) (map_option subAction_value (Some SubAction_LOGIN)) =
     Inr ''handleAuthLogin''"
  by (simp_all add: key_eval)

lemma sample_entries:
  "sample_config ''handleUser'' = None"
  "sample_config ''handleGroupGet'' = Some \<lparr>noAuth = Some True, actionMethod = sample_method\<rparr>"
  "sample_config ''handleZoneJoin'' = Some \<lparr>noAuth = None, actionMethod = sample_method\<rparr>"
  "sample_config ''handleMessageSend'' = Some \<lparr>noAuth = Some False, actionMethod = sample_method\<rparr>"
  "sample_config ''handleAuthLogin'' = Some \<lparr>noAuth = Some False, actionMethod = sample_method\<rparr>"
  by (simp_all add: sample_config_def)

lemma sample_message_fields:
  "auth (sample_message a act sub) = a"
  "action (sample_message a act sub) = act"
  "subAction (sample_message a act sub) = sub"
  "payload (sample_message a act sub) = Some ''{}''"
  by (simp_all add: sample_message_def)

text \<open>
  C5. When the registry has no entry for the key computed from the envelope, dispatch
  rejects with the error whose message is Invalid Action followed by that key. No call
  is made before: no token validation and no action method, whatever the \<open>auth\<close> field
  of the envelope, the secret and the verifier are.
\<close>

theorem unknown_action_rejected:
  assumes "createMethodName (action_value (action msg))
             (map_option subAction_value (subAction msg)) = Inr k"
    and "config k = None"
  shows "handleMessage JWT_SECRET jwt_verify config ws msg = ([], Inl (InvalidAction k))
       \<and> error_message (InvalidAction k) = ''Invalid Action '' @ k"
  using assms by (simp add: handleMessage_unmatched)

theorem unknown_action_rejected_witness:
  "createMethodName (action_value (action (sample_message (Some ''Bearer tok'') Action_USER None)))
     (map_option subAction_value (subAction (sample_message (Some ''Bearer tok'') Action_USER None))) =
     Inr ''handleUser''
   \<and> sample_config ''handleUser'' = None
   \<and> handleMessage (Some ''s3cret'') sample_verify sample_config 7
        (sample_message (Some ''Bearer tok'') Action_USER None) =
       ([], Inl (InvalidAction ''handleUser''))
   \<and> error_message (InvalidAction ''handleUser'') = ''Invalid Action handleUser''"
proof -
  let ?m = "sample_message (Some ''Bearer tok'') Action_USER None"
  have k: "createMethodName (action_value (action ?m))
             (map_option subAction_value (subAction ?m)) = Inr ''handleUser''"
    by (simp only: sample_message_fields sample_keys)
  have e: "sample_config ''handleUser'' = None"
    by (rule sample_entries)
  from unknown_action_rejected [where config = sample_config and JWT_SECRET = "Some ''s3cret''"
      and jwt_verify = sample_verify and ws = 7, OF k e] k e
  show ?thesis by simp
qed

text \<open>
  C1, as amended. For every envelope whose action is not AUTH and whose matched entry
  has the flag \<open>noAuth\<close> equal to the literal false, dispatch with a missing or empty
  \<open>auth\<close> field rejects with the error Not Logged in, and no call is made: the action
  method of the entry is not invoked.
\<close>

theorem missing_auth_rejected:
  assumes "createMethodName (action_value (action msg))
             (map_option subAction_value (subAction msg)) = Inr k"
    and "config k = Some entry"
    and "action msg \<noteq> Action_AUTH"
    and "noAuth entry = Some False"
    and "auth msg = None \<or> auth msg = Some []"
  shows "handleMessage JWT_SECRET jwt_verify config ws msg = ([], Inl NotLoggedIn)
       \<and> error_message NotLoggedIn = ''Not Logged in''"
  using assms by (simp add: handleMessage_gated_no_auth)

theorem missing_auth_rejected_witness:
  "createMethodName (action_value (action (sample_message None Action_MESSAGE (Some SubAction_SEND))))
     (map_option subAction_value
        (subAction (sample_message None Action_MESSAGE (Some SubAction_SEND)))) =
     Inr ''handleMessageSend''
   \<and> sample_config ''handleMessageSend'' =
       Some \<lparr>noAuth = Some False, actionMethod = sample_method\<rparr>
   \<and> action (sample_message None Action_MESSAGE (Some SubAction_SEND)) \<noteq> Action_AUTH
   \<and> auth (sample_message None Action_MESSAGE (Some SubAction_SEND)) = None
   \<and> handleMessage (Some ''s3cret'') sample_verify sample_config 7
        (sample_message None Action_MESSAGE (Some SubAction_SEND)) = ([], Inl NotLoggedIn)
   \<and> handleMessage (Some ''s3cret'') sample_verify sample_config 7
        (sample_message (Some []) Action_MESSAGE (Some SubAction_SEND)) = ([], Inl NotLoggedIn)"
proof -
  let ?m = "sample_message None Action_MESSAGE (Some SubAction_SEND)"
  let ?m' = "sample_message (Some []) Action_MESSAGE (Some SubAction_SEND)"
  let ?entry = "\<lparr>noAuth = Some False, actionMethod = sample_method\<rparr>"
  have k: "createMethodName (action_value (action ?m))
             (map_option subAction_value (subAction ?m)) = Inr ''handleMessageSend''"
    by (simp only: sample_message_fields sample_keys)
  have k': "createMethodName (action_value (action ?m'))
             (map_option subAction_value (subAction ?m')) = Inr ''handleMessageSend''"
    by (simp only: sample_message_fields sample_keys)
  have e: "sample_config ''handleMessageSend'' = Some ?entry"
    by (rule sample_entries)
  have a: "action ?m \<noteq> Action_AUTH" "action ?m' \<noteq> Action_AUTH"
    by (simp_all add: sample_message_fields)
  have f: "noAuth ?entry = Some False"
    by simp
  have n: "auth ?m = None \<or> auth ?m = Some []" "auth ?m' = None \<or> auth ?m' = Some []"
    by (simp_all add: sample_message_fields)
  from missing_auth_rejected [where config = sample_config and JWT_SECRET = "Some ''s3cret''"
      and jwt_verify = sample_verify and ws = 7, OF k e a(1) f n(1)]
    missing_auth_rejected [where config = sample_config and JWT_SECRET = "Some ''s3cret''"
      and jwt_verify = sample_verify and ws = 7, OF k' e a(2) f n(2)]
    k e a
  show ?thesis by (simp add: sample_message_fields)
qed

theorem unflagged_missing_auth_counterexample:
  "action (sample_message None Action_GROUP (Some SubAction_GET)) \<noteq> Action_AUTH
   \<and> auth (sample_message None Action_GROUP (Some SubAction_GET)) = None
   \<and> createMethodName (action_value Action_GROUP) (map_option subAction_value (Some SubAction_GET)) =
       Inr ''handleGroupGet''
   \<and> map_option noAuth (sample_config ''handleGroupGet'') = Some (Some True)
   \<and> handleMessage (Some ''s3cret'') sample_verify sample_config 7
        (sample_message None Action_GROUP (Some SubAction_GET)) =
       ([Call_actionMethod ''handleGroupGet'' 7 (Some ''{}'') None], Inr ''anonymous'')
   \<and> snd (handleMessage (Some ''s3cret'') sample_verify sample_config 7
        (sample_message None Action_GROUP (Some SubAction_GET))) \<noteq> Inl NotLoggedIn
   \<and> action (sample_message None Action_ZONE (Some SubAction_JOIN)) \<noteq> Action_AUTH
   \<and> auth (sample_message None Action_ZONE (Some SubAction_JOIN)) = None
   \<and> createMethodName (action_value Action_ZONE) (map_option subAction_value (Some SubAction_JOIN)) =
       Inr ''handleZoneJoin''
   \<and> map_option noAuth (sample_config ''handleZoneJoin'') = Some None
   \<and> handleMessage (Some ''s3cret'') sample_verify sample_config 7
        (sample_message None Action_ZONE (Some SubAction_JOIN)) =
       ([Call_actionMethod ''handleZoneJoin'' 7 (Some ''{}'') None], Inr ''anonymous'')
   \<and> snd (handleMessage (Some ''s3cret'') sample_verify sample_config 7
        (sample_message None Action_ZONE (Some SubAction_JOIN))) \<noteq> Inl NotLoggedIn"
proof -
  let ?g = "sample_message None Action_GROUP (Some SubAction_GET)"
  let ?z = "sample_message None Action_ZONE (Some SubAction_JOIN)"
  have g: "handleMessage (Some ''s3cret'') sample_verify sample_config 7 ?g =
       ([Call_actionMethod ''handleGroupGet'' 7 (Some ''{}'') None], Inr ''anonymous'')"
    by (simp add: handleMessage_def sample_message_fields key_eval sample_entries
        sample_method_def)
  have z: "handleMessage (Some ''s3cret'') sample_verify sample_config 7 ?z =
       ([Call_actionMethod ''handleZoneJoin'' 7 (Some ''{}'') None], Inr ''anonymous'')"
    by (simp add: handleMessage_def sample_message_fields key_eval sample_entries
        sample_method_def)
  show ?thesis
    by (simp add: g z sample_message_fields key_eval sample_entries)
qed

lemma handleMessage_gated_auth_first_call:
  assumes "createMethodName (action_value (action msg))
             (map_option subAction_value (subAction msg)) = Inr k"
    and "config k = Some entry"
    and "action msg \<noteq> Action_AUTH" and "noAuth entry = Some False"
    and "auth msg = Some a" and "a \<noteq> []"
  shows "take 1 (fst (handleMessage JWT_SECRET jwt_verify config ws msg)) = [Call_validateToken a]"
  using handleMessage_gated_auth [where config = config and JWT_SECRET = JWT_SECRET
      and jwt_verify = jwt_verify and ws = ws, OF assms]
  by (simp split: prod.splits sum.splits)

text \<open>
  C2, as amended. For every envelope and every matched entry whose flag \<open>noAuth\<close> is the
  literal true, dispatch makes no call of \<open>validateToken\<close> and invokes the action method
  with an undefined user, whether or not the envelope carries an \<open>auth\<close> field. With the
  flag equal to the literal false this holds for the action AUTH only: for any other
  action dispatch rejects a missing or empty \<open>auth\<close> and otherwise calls \<open>validateToken\<close>
  on it first.
\<close>

theorem explicit_flag_dispatch:
  assumes "createMethodName (action_value (action msg))
             (map_option subAction_value (subAction msg)) = Inr k"
    and "config k = Some entry"
  shows "(noAuth entry = Some True \<or> (noAuth entry = Some False \<and> action msg = Action_AUTH) \<longrightarrow>
            handleMessage JWT_SECRET jwt_verify config ws msg =
              ([Call_actionMethod k ws (payload msg) None],
               Inr (actionMethod entry ws (payload msg) None)))
       \<and> (noAuth entry = Some False \<and> action msg \<noteq> Action_AUTH \<longrightarrow>
            (case auth msg of
               None \<Rightarrow> handleMessage JWT_SECRET jwt_verify config ws msg = ([], Inl NotLoggedIn)
             | Some a \<Rightarrow>
                 if a = [] then
                   handleMessage JWT_SECRET jwt_verify config ws msg = ([], Inl NotLoggedIn)
                 else take 1 (fst (handleMessage JWT_SECRET jwt_verify config ws msg)) =
                        [Call_validateToken a]))"
proof -
  have skip: "handleMessage JWT_SECRET jwt_verify config ws msg =
      ([Call_actionMethod k ws (payload msg) None],
       Inr (actionMethod entry ws (payload msg) None))"
    if "noAuth entry = Some True \<or> (noAuth entry = Some False \<and> action msg = Action_AUTH)"
  proof -
    from that have "action msg = Action_AUTH \<or> noAuth entry \<noteq> Some False"
      by auto
    with assms show ?thesis
      by (rule handleMessage_ungated)
  qed
  have gate: "case auth msg of
               None \<Rightarrow> handleMessage JWT_SECRET jwt_verify config ws msg = ([], Inl NotLoggedIn)
             | Some a \<Rightarrow>
                 if a = [] then
                   handleMessage JWT_SECRET jwt_verify config ws msg = ([], Inl NotLoggedIn)
                 else take 1 (fst (handleMessage JWT_SECRET jwt_verify config ws msg)) =
                        [Call_validateToken a]"
    if f: "noAuth entry = Some False" and a: "action msg \<noteq> Action_AUTH"
  proof (cases "auth msg")
    case None
    with assms f a show ?thesis
      by (simp add: handleMessage_gated_no_auth)
  next
    case (Some x)
    show ?thesis
    proof (cases "x = []")
      case True
      with Some assms f a show ?thesis
        by (simp add: handleMessage_gated_no_auth)
    next
      case False
      from assms a f Some False
      have "take 1 (fst (handleMessage JWT_SECRET jwt_verify config ws msg)) =
          [Call_validateToken x]"
        by (rule handleMessage_gated_auth_first_call)
      with Some False show ?thesis
        by simp
    qed
  qed
  from skip gate show ?thesis by blast
qed

theorem explicit_flag_dispatch_witness:
  "sample_config ''handleGroupGet'' = Some \<lparr>noAuth = Some True, actionMethod = sample_method\<rparr>
   \<and> handleMessage (Some ''s3cret'') sample_verify sample_config 7
        (sample_message (Some ''Bearer tok'') Action_GROUP (Some SubAction_GET)) =
       ([Call_actionMethod ''handleGroupGet'' 7 (Some ''{}'') None], Inr ''anonymous'')
   \<and> handleMessage (Some ''s3cret'') sample_verify sample_config 7
        (sample_message None Action_GROUP (Some SubAction_GET)) =
       ([Call_actionMethod ''handleGroupGet'' 7 (Some ''{}'') None], Inr ''anonymous'')
   \<and> sample_config ''handleAuthLogin'' = Some \<lparr>noAuth = Some False, actionMethod = sample_method\<rparr>
   \<and> handleMessage (Some ''s3cret'') sample_verify sample_config 7
        (sample_message None Action_AUTH (Some SubAction_LOGIN)) =
       ([Call_actionMethod ''handleAuthLogin'' 7 (Some ''{}'') None], Inr ''anonymous'')
   \<and> sample_config ''handleMessageSend'' =
       Some \<lparr>noAuth = Some False, actionMethod = sample_method\<rparr>
   \<and> handleMessage (Some ''s3cret'') sample_verify sample_config 7
        (sample_message None Action_MESSAGE (Some SubAction_SEND)) = ([], Inl NotLoggedIn)
   \<and> take 1 (fst (handleMessage (Some ''s3cret'') sample_verify sample_config 7
        (sample_message (Some ''Bearer tok'') Action_MESSAGE (Some SubAction_SEND)))) =
       [Call_validateToken ''Bearer tok'']"
proof -
  let ?S = "Some ''s3cret''"
  have kg: "createMethodName (action_value (action (sample_message a Action_GROUP (Some SubAction_GET))))
      (map_option subAction_value (subAction (sample_message a Action_GROUP (Some SubAction_GET)))) =
      Inr ''handleGroupGet''" for a
    by (simp only: sample_message_fields sample_keys)
  have ka: "createMethodName
      (action_value (action (sample_message None Action_AUTH (Some SubAction_LOGIN))))
      (map_option subAction_value (subAction (sample_message None Action_AUTH (Some SubAction_LOGIN)))) =
      Inr ''handleAuthLogin''"
    by (simp only: sample_message_fields sample_keys)
  have km: "createMethodName
      (action_value (action (sample_message a Action_MESSAGE (Some SubAction_SEND))))
      (map_option subAction_value (subAction (sample_message a Action_MESSAGE (Some SubAction_SEND)))) =
      Inr ''handleMessageSend''" for a
    by (simp only: sample_message_fields sample_keys)
  note e = sample_entries
  from explicit_flag_dispatch [where config = sample_config and JWT_SECRET = ?S
      and jwt_verify = sample_verify and ws = 7, OF kg [of "Some ''Bearer tok''"] e(2)]
    explicit_flag_dispatch [where config = sample_config and JWT_SECRET = ?S
      and jwt_verify = sample_verify and ws = 7, OF kg [of None] e(2)]
    explicit_flag_dispatch [where config = sample_config and JWT_SECRET = ?S
      and jwt_verify = sample_verify and ws = 7, OF ka e(5)]
    explicit_flag_dispatch [where config = sample_config and JWT_SECRET = ?S
      and jwt_verify = sample_verify and ws = 7, OF km [of None] e(4)]
    explicit_flag_dispatch [where config = sample_config and JWT_SECRET = ?S
      and jwt_verify = sample_verify and ws = 7, OF km [of "Some ''Bearer tok''"] e(4)]
    e
  show ?thesis
    by (simp add: sample_message_fields sample_method_def)
qed

theorem false_flag_validates_counterexample:
  "createMethodName (action_value Action_MESSAGE) (map_option subAction_value (Some SubAction_SEND)) =
     Inr ''handleMessageSend''
   \<and> map_option noAuth (sample_config ''handleMessageSend'') = Some (Some False)
   \<and> handleMessage (Some ''s3cret'') sample_verify sample_config 7
        (sample_message None Action_MESSAGE (Some SubAction_SEND)) = ([], Inl NotLoggedIn)
   \<and> handleMessage (Some ''s3cret'') sample_verify sample_config 7
        (sample_message (Some ''Bearer tok'') Action_MESSAGE (Some SubAction_SEND)) =
       ([Call_validateToken ''Bearer tok'', Call_jwt_verify ''tok'' ''s3cret'',
         Call_actionMethod ''handleMessageSend'' 7 (Some ''{}'') (Some ''alice'')],
        Inr ''alice'')
   \<and> handleMessage (Some ''s3cret'') sample_verify sample_config 7
        (sample_message (Some ''Bearer bad'') Action_MESSAGE (Some SubAction_SEND)) =
       ([Call_validateToken ''Bearer bad'', Call_jwt_verify ''bad'' ''s3cret''],
        Inl InvalidToken)"
  by (simp add: handleMessage_def validateToken_def bearer_token_def sample_verify_def
      sample_message_fields key_eval sample_entries sample_method_def)

text \<open>
  C6. For every envelope with action AUTH that matches an entry, dispatch requires no
  \<open>auth\<close> field and makes no call of \<open>validateToken\<close>, whatever the flag of the entry is:
  the only call is the action method, with an undefined user.
\<close>

theorem auth_action_never_validated:
  assumes "createMethodName (action_value (action msg))
             (map_option subAction_value (subAction msg)) = Inr k"
    and "config k = Some entry"
    and "action msg = Action_AUTH"
  shows "handleMessage JWT_SECRET jwt_verify config ws msg =
           ([Call_actionMethod k ws (payload msg) None],
            Inr (actionMethod entry ws (payload msg) None))"
  using assms by (simp add: handleMessage_ungated)

theorem auth_action_never_validated_witness:
  "createMethodName (action_value (action (sample_message None Action_AUTH (Some SubAction_LOGIN))))
     (map_option subAction_value
        (subAction (sample_message None Action_AUTH (Some SubAction_LOGIN)))) =
     Inr ''handleAuthLogin''
   \<and> sample_config ''handleAuthLogin'' =
       Some \<lparr>noAuth = Some False, actionMethod = sample_method\<rparr>
   \<and> action (sample_message None Action_AUTH (Some SubAction_LOGIN)) = Action_AUTH
   \<and> auth (sample_message None Action_AUTH (Some SubAction_LOGIN)) = None
   \<and> handleMessage None sample_verify sample_config 7
        (sample_message None Action_AUTH (Some SubAction_LOGIN)) =
       ([Call_actionMethod ''handleAuthLogin'' 7 (Some ''{}'') None], Inr ''anonymous'')"
proof -
  let ?m = "sample_message None Action_AUTH (Some SubAction_LOGIN)"
  let ?entry = "\<lparr>noAuth = Some False, actionMethod = sample_method\<rparr>"
  have k: "createMethodName (action_value (action ?m))
             (map_option subAction_value (subAction ?m)) = Inr ''handleAuthLogin''"
    by (simp only: sample_message_fields sample_keys)
  have e: "sample_config ''handleAuthLogin'' = Some ?entry"
    by (rule sample_entries)
  have a: "action ?m = Action_AUTH"
    by (simp add: sample_message_fields)
  from auth_action_never_validated [where config = sample_config and JWT_SECRET = None
      and jwt_verify = sample_verify and ws = 7, OF k e a] k e a
  show ?thesis by (simp add: sample_message_fields sample_method_def)
qed

text \<open>
  C9. For every envelope whose action is not AUTH and whose matched entry has a flag
  \<open>noAuth\<close> other than the literal false (unset, or true), dispatch makes no call of
  \<open>validateToken\<close> and the action method receives an undefined user, also when the
  envelope carries a token that would verify.
\<close>

theorem unflagged_entry_skips_validation:
  assumes "createMethodName (action_value (action msg))
             (map_option subAction_value (subAction msg)) = Inr k"
    and "config k = Some entry"
    and "action msg \<noteq> Action_AUTH"
    and "noAuth entry \<noteq> Some False"
  shows "handleMessage JWT_SECRET jwt_verify config ws msg =
           ([Call_actionMethod k ws (payload msg) None],
            Inr (actionMethod entry ws (payload msg) None))"
  using assms by (simp add: handleMessage_ungated)

theorem unflagged_entry_skips_validation_witness:
  "createMethodName
     (action_value (action (sample_message (Some ''Bearer tok'') Action_ZONE (Some SubAction_JOIN))))
     (map_option subAction_value
        (subAction (sample_message (Some ''Bearer tok'') Action_ZONE (Some SubAction_JOIN)))) =
     Inr ''handleZoneJoin''
   \<and> sample_config ''handleZoneJoin'' = Some \<lparr>noAuth = None, actionMethod = sample_method\<rparr>
   \<and> action (sample_message (Some ''Bearer tok'') Action_ZONE (Some SubAction_JOIN)) \<noteq> Action_AUTH
   \<and> validateToken (Some ''s3cret'') sample_verify (JS_string ''Bearer tok'') =
       ([(''tok'', ''s3cret'')], Inr \<lparr>user = Some ''alice''\<rparr>)
   \<and> handleMessage (Some ''s3cret'') sample_verify sample_config 7
        (sample_message (Some ''Bearer tok'') Action_ZONE (Some SubAction_JOIN)) =
       ([Call_actionMethod ''handleZoneJoin'' 7 (Some ''{}'') None], Inr ''anonymous'')"
proof -
  let ?m = "sample_message (Some ''Bearer tok'') Action_ZONE (Some SubAction_JOIN)"
  let ?entry = "\<lparr>noAuth = None, actionMethod = sample_method\<rparr>"
  have k: "createMethodName (action_value (action ?m))
             (map_option subAction_value (subAction ?m)) = Inr ''handleZoneJoin''"
    by (simp only: sample_message_fields sample_keys)
  have e: "sample_config ''handleZoneJoin'' = Some ?entry"
    by (rule sample_entries)
  have a: "action ?m \<noteq> Action_AUTH"
    by (simp add: sample_message_fields)
  have f: "noAuth ?entry \<noteq> Some False"
    by simp
  have v: "validateToken (Some ''s3cret'') sample_verify (JS_string ''Bearer tok'') =
       ([(''tok'', ''s3cret'')], Inr \<lparr>user = Some ''alice''\<rparr>)"
    by (simp add: validateToken_def bearer_token_def sample_verify_def)
  from unflagged_entry_skips_validation [where config = sample_config
      and JWT_SECRET = "Some ''s3cret''" and jwt_verify = sample_verify and ws = 7, OF k e a f]
    k e a v
  show ?thesis by (simp add: sample_message_fields sample_method_def)
qed

lemma validateToken_no_secret:
  assumes "JWT_SECRET = None \<or> JWT_SECRET = Some []"
  shows "validateToken JWT_SECRET jwt_verify (JS_string b) = ([], Inl NoJwtSecret)"
  using assms by (auto simp: validateToken_def)

lemma validateToken_Inr:
  assumes "validateToken JWT_SECRET jwt_verify (JS_string a) = (calls, Inr res)"
  shows "\<exists>secret. JWT_SECRET = Some secret \<and> secret \<noteq> []
           \<and> jwt_verify (bearer_token a) secret = Some res
           \<and> calls = [(bearer_token a, secret)]"
  using assms by (auto simp: validateToken_def Let_def split: option.splits if_splits)

text \<open>
  C7. When dispatch takes the authentication branch (the action is not AUTH, the flag
  of the matched entry is the literal false, the \<open>auth\<close> field is a non-empty string) and
  \<open>validateToken\<close> succeeds on the \<open>auth\<close> string, the action method is invoked with the
  \<open>user\<close> field of the claims \<open>validateToken\<close> returned, and these are the claims
  \<open>jwt.verify\<close> decoded from the token.
\<close>

theorem valid_token_user:
  assumes "createMethodName (action_value (action msg))
             (map_option subAction_value (subAction msg)) = Inr k"
    and "config k = Some entry"
    and "action msg \<noteq> Action_AUTH"
    and "noAuth entry = Some False"
    and "auth msg = Some a" and "a \<noteq> []"
    and "validateToken JWT_SECRET jwt_verify (JS_string a) = (calls, Inr res)"
  shows "handleMessage JWT_SECRET jwt_verify config ws msg =
           (Call_validateToken a # map (\<lambda>(t, s). Call_jwt_verify t s) calls @
              [Call_actionMethod k ws (payload msg) (user res)],
            Inr (actionMethod entry ws (payload msg) (user res)))
       \<and> (\<exists>secret. JWT_SECRET = Some secret
             \<and> jwt_verify (bearer_token a) secret = Some res)"
proof -
  from assms(1-6) have "handleMessage JWT_SECRET jwt_verify config ws msg =
      (case validateToken JWT_SECRET jwt_verify (JS_string a) of
         (calls, Inl e) \<Rightarrow>
           (Call_validateToken a # map (\<lambda>(t, s). Call_jwt_verify t s) calls, Inl e)
       | (calls, Inr res) \<Rightarrow>
           (Call_validateToken a # map (\<lambda>(t, s). Call_jwt_verify t s) calls @
              [Call_actionMethod k ws (payload msg) (user res)],
            Inr (actionMethod entry ws (payload msg) (user res))))"
    by (rule handleMessage_gated_auth)
  with assms(7) have "handleMessage JWT_SECRET jwt_verify config ws msg =
      (Call_validateToken a # map (\<lambda>(t, s). Call_jwt_verify t s) calls @
         [Call_actionMethod k ws (payload msg) (user res)],
       Inr (actionMethod entry ws (payload msg) (user res)))"
    by simp
  moreover from validateToken_Inr [OF assms(7)]
  have "\<exists>secret. JWT_SECRET = Some secret \<and> jwt_verify (bearer_token a) secret = Some res"
    by blast
  ultimately show ?thesis by blast
qed

theorem valid_token_user_witness:
  "createMethodName
     (action_value (action (sample_message (Some ''Bearer tok'') Action_MESSAGE (Some SubAction_SEND))))
     (map_option subAction_value
        (subAction (sample_message (Some ''Bearer tok'') Action_MESSAGE (Some SubAction_SEND)))) =
     Inr ''handleMessageSend''
   \<and> sample_config ''handleMessageSend'' =
       Some \<lparr>noAuth = Some False, actionMethod = sample_method\<rparr>
   \<and> action (sample_message (Some ''Bearer tok'') Action_MESSAGE (Some SubAction_SEND)) \<noteq> Action_AUTH
   \<and> auth (sample_message (Some ''Bearer tok'') Action_MESSAGE (Some SubAction_SEND)) =
       Some ''Bearer tok''
   \<and> validateToken (Some ''s3cret'') sample_verify (JS_string ''Bearer tok'') =
       ([(''tok'', ''s3cret'')], Inr \<lparr>user = Some ''alice''\<rparr>)
   \<and> handleMessage (Some ''s3cret'') sample_verify sample_config 7
        (sample_message (Some ''Bearer tok'') Action_MESSAGE (Some SubAction_SEND)) =
       ([Call_validateToken ''Bearer tok'', Call_jwt_verify ''tok'' ''s3cret'',
         Call_actionMethod ''handleMessageSend'' 7 (Some ''{}'') (Some ''alice'')],
        Inr ''alice'')"
proof -
  let ?m = "sample_message (Some ''Bearer tok'') Action_MESSAGE (Some SubAction_SEND)"
  let ?entry = "\<lparr>noAuth = Some False, actionMethod = sample_method\<rparr>"
  have k: "createMethodName (action_value (action ?m))
             (map_option subAction_value (subAction ?m)) = Inr ''handleMessageSend''"
    by (simp only: sample_message_fields sample_keys)
  have e: "sample_config ''handleMessageSend'' = Some ?entry"
    by (rule sample_entries)
  have a: "action ?m \<noteq> Action_AUTH"
    by (simp add: sample_message_fields)
  have f: "noAuth ?entry = Some False"
    by simp
  have t: "auth ?m = Some ''Bearer tok''" "''Bearer tok'' \<noteq> []"
    by (simp_all add: sample_message_fields)
  have v: "validateToken (Some ''s3cret'') sample_verify (JS_string ''Bearer tok'') =
       ([(''tok'', ''s3cret'')], Inr \<lparr>user = Some ''alice''\<rparr>)"
    by (simp add: validateToken_def bearer_token_def sample_verify_def)
  from valid_token_user [where config = sample_config and ws = 7, OF k e a f t v] k e a t(1) v
  show ?thesis by (simp add: sample_message_fields sample_method_def)
qed

text \<open>
  C8. When no JWT secret is configured (the environment variable is unset, or empty),
  every call of \<open>validateToken\<close> on a string rejects with the configuration error, whatever
  the string and the verifier are, and without a call of \<open>jwt.verify\<close>; so every dispatch
  that reaches token validation rejects with that error and invokes no action method.
\<close>

theorem missing_secret_rejects:
  assumes "JWT_SECRET = None \<or> JWT_SECRET = Some []"
  shows "validateToken JWT_SECRET jwt_verify (JS_string b) = ([], Inl NoJwtSecret)
       \<and> error_message NoJwtSecret = ''No JWT secret found. Please set JWT_SECRET in .env file.''
       \<and> (createMethodName (action_value (action msg))
              (map_option subAction_value (subAction msg)) = Inr k
            \<and> config k = Some entry \<and> action msg \<noteq> Action_AUTH \<and> noAuth entry = Some False
            \<and> auth msg = Some a \<and> a \<noteq> []
          \<longrightarrow> handleMessage JWT_SECRET jwt_verify config ws msg =
                ([Call_validateToken a], Inl NoJwtSecret))"
proof -
  have v: "validateToken JWT_SECRET jwt_verify (JS_string x) = ([], Inl NoJwtSecret)" for x
    using assms by (rule validateToken_no_secret)
  have "handleMessage JWT_SECRET jwt_verify config ws msg =
      ([Call_validateToken a], Inl NoJwtSecret)"
    if "createMethodName (action_value (action msg))
              (map_option subAction_value (subAction msg)) = Inr k"
      and "config k = Some entry" and "action msg \<noteq> Action_AUTH"
      and "noAuth entry = Some False" and "auth msg = Some a" and "a \<noteq> []"
    using handleMessage_gated_auth [where config = config and JWT_SECRET = JWT_SECRET
        and jwt_verify = jwt_verify and ws = ws, OF that]
    by (simp add: v)
  with v show ?thesis by simp
qed

theorem missing_secret_rejects_witness:
  "validateToken None sample_verify (JS_string ''Bearer tok'') = ([], Inl NoJwtSecret)
   \<and> validateToken (Some ''s3cret'') sample_verify (JS_string ''Bearer tok'') =
       ([(''tok'', ''s3cret'')], Inr \<lparr>user = Some ''alice''\<rparr>)
   \<and> createMethodName (action_value Action_MESSAGE)
        (map_option subAction_value (Some SubAction_SEND)) = Inr ''handleMessageSend''
   \<and> sample_config ''handleMessageSend'' =
       Some \<lparr>noAuth = Some False, actionMethod = sample_method\<rparr>
   \<and> handleMessage None sample_verify sample_config 7
        (sample_message (Some ''Bearer tok'') Action_MESSAGE (Some SubAction_SEND)) =
       ([Call_validateToken ''Bearer tok''], Inl NoJwtSecret)
   \<and> handleMessage (Some []) sample_verify sample_config 7
        (sample_message (Some ''Bearer tok'') Action_MESSAGE (Some SubAction_SEND)) =
       ([Call_validateToken ''Bearer tok''], Inl NoJwtSecret)"
proof -
  let ?m = "sample_message (Some ''Bearer tok'') Action_MESSAGE (Some SubAction_SEND)"
  let ?entry = "\<lparr>noAuth = Some False, actionMethod = sample_method\<rparr>"
  have n: "(None :: string option) = None \<or> (None :: string option) = Some []"
    by simp
  have n': "Some [] = None \<or> Some [] = Some ([] :: string)"
    by simp
  have v: "validateToken (Some ''s3cret'') sample_verify (JS_string ''Bearer tok'') =
       ([(''tok'', ''s3cret'')], Inr \<lparr>user = Some ''alice''\<rparr>)"
    by (simp add: validateToken_def bearer_token_def sample_verify_def)
  from missing_secret_rejects [OF n, where jwt_verify = sample_verify and b = "''Bearer tok''"
      and msg = ?m and k = "''handleMessageSend''" and config = sample_config
      and entry = ?entry and a = "''Bearer tok''" and ws = 7]
    missing_secret_rejects [OF n', where jwt_verify = sample_verify and b = "''Bearer tok''"
      and msg = ?m and k = "''handleMessageSend''" and config = sample_config
      and entry = ?entry and a = "''Bearer tok''" and ws = 7]
    v
  show ?thesis
    by (simp add: sample_message_fields key_eval sample_entries)
qed

section \<open>The token that is verified\<close>

lemma split_nonempty: "split sep s \<noteq> []"
  by (cases s) (simp_all split: list.splits)

lemma split_no_separator: "sep \<notin> set p \<Longrightarrow> split sep p = [p]"
  by (induction p) auto

lemma split_at_separator: "sep \<notin> set p \<Longrightarrow> split sep (p @ sep # q) = p # split sep q"
  by (induction p) auto

lemma bearer_token_second:
  assumes "CHR '' '' \<notin> set p" and "CHR '' '' \<notin> set t" and "t \<noteq> []"
  shows "bearer_token (p @ CHR '' '' # t) = t"
    and "bearer_token (p @ CHR '' '' # t @ CHR '' '' # rest) = t"
  using assms
  by (simp_all add: bearer_token_def split_at_separator split_no_separator)

lemma bearer_token_whole:
  assumes "CHR '' '' \<notin> set p"
  shows "bearer_token p = p"
    and "bearer_token (p @ [CHR '' '']) = p @ [CHR '' '']"
    and "bearer_token (p @ CHR '' '' # CHR '' '' # rest) = p @ CHR '' '' # CHR '' '' # rest"
  using assms
  by (simp_all add: bearer_token_def split_at_separator split_no_separator)

lemma validateToken_secret:
  assumes "secret \<noteq> []"
  shows "validateToken (Some secret) jwt_verify (JS_string b) =
           ([(bearer_token b, secret)],
            case jwt_verify (bearer_token b) secret of
              None \<Rightarrow> Inl InvalidToken
            | Some claims \<Rightarrow> Inr claims)"
  using assms by (simp add: validateToken_def Let_def split: option.splits)

lemma validateToken_scheme_examples:
  "validateToken (Some ''s3cret'') sample_verify (JS_string ''Basic tok'') =
     ([(''tok'', ''s3cret'')], Inr \<lparr>user = Some ''alice''\<rparr>)
   \<and> validateToken (Some ''s3cret'') sample_verify (JS_string '' tok'') =
     ([(''tok'', ''s3cret'')], Inr \<lparr>user = Some ''alice''\<rparr>)
   \<and> validateToken (Some ''s3cret'') sample_verify (JS_string ''tok'') =
     ([(''tok'', ''s3cret'')], Inr \<lparr>user = Some ''alice''\<rparr>)
   \<and> validateToken (Some ''s3cret'') sample_verify (JS_string ''tok Bearer'') =
     ([(''Bearer'', ''s3cret'')], Inl InvalidToken)"
  by (simp add: validateToken_def bearer_token_def sample_verify_def)

text \<open>
  C10. With a secret configured, \<open>validateToken\<close> verifies exactly one token. For a string
  with a space after a first segment \<open>p\<close> and a non-empty second segment \<open>t\<close>, it is \<open>t\<close>:
  \<open>p\<close> is dropped whatever it is, and so is everything after the second segment. For a
  string with no space, or with an empty second segment, it is the whole string.
\<close>

theorem validateToken_verifies_second_segment:
  assumes "secret \<noteq> []" and "CHR '' '' \<notin> set p"
  shows "(t \<noteq> [] \<and> CHR '' '' \<notin> set t \<longrightarrow>
            validateToken (Some secret) jwt_verify (JS_string (p @ '' '' @ t)) =
              ([(t, secret)],
               case jwt_verify t secret of None \<Rightarrow> Inl InvalidToken | Some c \<Rightarrow> Inr c)
          \<and> validateToken (Some secret) jwt_verify (JS_string (p @ '' '' @ t @ '' '' @ rest)) =
              ([(t, secret)],
               case jwt_verify t secret of None \<Rightarrow> Inl InvalidToken | Some c \<Rightarrow> Inr c))
       \<and> validateToken (Some secret) jwt_verify (JS_string p) =
           ([(p, secret)],
            case jwt_verify p secret of None \<Rightarrow> Inl InvalidToken | Some c \<Rightarrow> Inr c)
       \<and> validateToken (Some secret) jwt_verify (JS_string (p @ '' '')) =
           ([(p @ '' '', secret)],
            case jwt_verify (p @ '' '') secret of None \<Rightarrow> Inl InvalidToken | Some c \<Rightarrow> Inr c)
       \<and> validateToken (Some secret) jwt_verify (JS_string (p @ ''  '' @ rest)) =
           ([(p @ ''  '' @ rest, secret)],
            case jwt_verify (p @ ''  '' @ rest) secret of
              None \<Rightarrow> Inl InvalidToken
            | Some c \<Rightarrow> Inr c)"
  using assms
  by (simp add: validateToken_secret bearer_token_second bearer_token_whole)

theorem validateToken_verifies_second_segment_witness:
  "''s3cret'' \<noteq> [] \<and> CHR '' '' \<notin> set ''Bearer'' \<and> ''tok'' \<noteq> [] \<and> CHR '' '' \<notin> set ''tok''
   \<and> validateToken (Some ''s3cret'') sample_verify (JS_string ''Bearer tok'') =
       ([(''tok'', ''s3cret'')], Inr \<lparr>user = Some ''alice''\<rparr>)
   \<and> validateToken (Some ''s3cret'') sample_verify (JS_string ''Bearer tok and more'') =
       ([(''tok'', ''s3cret'')], Inr \<lparr>user = Some ''alice''\<rparr>)
   \<and> validateToken (Some ''s3cret'') sample_verify (JS_string ''Bearer'') =
       ([(''Bearer'', ''s3cret'')], Inl InvalidToken)
   \<and> validateToken (Some ''s3cret'') sample_verify (JS_string ''Bearer '') =
       ([(''Bearer '', ''s3cret'')], Inl InvalidToken)
   \<and> validateToken (Some ''s3cret'') sample_verify (JS_string ''Bearer  tok and more'') =
       ([(''Bearer  tok and more'', ''s3cret'')], Inl InvalidToken)"
proof -
  have s: "''s3cret'' \<noteq> []" and p: "CHR '' '' \<notin> set ''Bearer''"
    by simp_all
  from validateToken_verifies_second_segment [OF s p, where t = "''tok''"
      and rest = "''and more''" and jwt_verify = sample_verify]
    validateToken_verifies_second_segment [OF s p, where t = "''tok''"
      and rest = "''tok and more''" and jwt_verify = sample_verify]
  show ?thesis
    by (simp add: sample_verify_def)
qed

end
